theory Spec2Isabelle
  imports Complex_Main
begin

section \<open>Smart text search: the scoring pipeline of \<^verbatim>\<open>src/index.ts\<close>\<close>

text \<open>
  The library exports one function, \<^verbatim>\<open>search({query, body, options})\<close>, which returns a
  relevance score. This theory embeds the whole pipeline: the merge of the option
  overrides, the normalizer, the tokenizer, the five scorer functions and the
  aggregation.

  Conventions of the embedding.
  \<^item> A JavaScript string is a sequence of UTF-16 code units. The model takes HOL's
    \<open>string\<close>, whose characters are the code units 0 to 255 (ASCII and the Latin-1
    supplement); \<open>length\<close> is JavaScript's \<^verbatim>\<open>.length\<close>.
  \<^item> A JavaScript number is \<open>Num r\<close> for a real \<open>r\<close>, one of the two infinities, or
    \<open>NaN\<close>. Arithmetic on finite numbers is exact: rounding and overflow are outside
    the model, and the two zeros are one.
  \<^item> An object is a finite map from its keys to values; a key may be present with the
    value \<^verbatim>\<open>undefined\<close>.
  \<^item> Reading an array out of range gives \<^verbatim>\<open>undefined\<close> (\<open>None\<close>); reading a property of
    \<^verbatim>\<open>undefined\<close> throws a \<^verbatim>\<open>TypeError\<close>. Exceptions are values of type \<open>error\<close>.
  \<^item> The regular expressions the source writes literally are modelled by the character
    classes and scans they denote. The one pattern built at run time,
    \<^verbatim>\<open>new RegExp(query, "g")\<close>, is computed by the model when the query has no syntax
    character (it is then a literal); otherwise the outcome is the host engine's, a
    parameter of the model.
\<close>

subsection \<open>Numbers, values and errors\<close>

datatype jsnumber = NaN | Num real | PosInfinity | NegInfinity

text \<open>A finite number times positive infinity.\<close>

fun timesInfinity :: "real \<Rightarrow> jsnumber" where
  "timesInfinity a = (if a = 0 then NaN else if 0 < a then PosInfinity else NegInfinity)"

fun jsMul :: "jsnumber \<Rightarrow> jsnumber \<Rightarrow> jsnumber" where
  "jsMul (Num a) (Num b) = Num (a * b)"
| "jsMul (Num a) PosInfinity = timesInfinity a"
| "jsMul (Num a) NegInfinity = timesInfinity (- a)"
| "jsMul PosInfinity (Num b) = timesInfinity b"
| "jsMul NegInfinity (Num b) = timesInfinity (- b)"
| "jsMul PosInfinity PosInfinity = PosInfinity"
| "jsMul PosInfinity NegInfinity = NegInfinity"
| "jsMul NegInfinity PosInfinity = NegInfinity"
| "jsMul NegInfinity NegInfinity = PosInfinity"
| "jsMul NaN b = NaN"
| "jsMul a NaN = NaN"

fun jsAdd :: "jsnumber \<Rightarrow> jsnumber \<Rightarrow> jsnumber" where
  "jsAdd (Num a) (Num b) = Num (a + b)"
| "jsAdd (Num a) PosInfinity = PosInfinity"
| "jsAdd (Num a) NegInfinity = NegInfinity"
| "jsAdd PosInfinity (Num b) = PosInfinity"
| "jsAdd NegInfinity (Num b) = NegInfinity"
| "jsAdd PosInfinity PosInfinity = PosInfinity"
| "jsAdd NegInfinity NegInfinity = NegInfinity"
| "jsAdd PosInfinity NegInfinity = NaN"
| "jsAdd NegInfinity PosInfinity = NaN"
| "jsAdd NaN b = NaN"
| "jsAdd a NaN = NaN"

datatype jsvalue = Undefined | Number jsnumber | Boolean bool

text \<open>The coercion a multiplication applies to its operands.\<close>

fun ToNumber :: "jsvalue \<Rightarrow> jsnumber" where
  "ToNumber Undefined = NaN"
| "ToNumber (Number n) = n"
| "ToNumber (Boolean b) = Num (if b then 1 else 0)"

text \<open>The coercion \<^verbatim>\<open>if (v)\<close> and \<^verbatim>\<open>!v\<close> apply.\<close>

fun ToBoolean :: "jsvalue \<Rightarrow> bool" where
  "ToBoolean Undefined = False"
| "ToBoolean (Boolean b) = b"
| "ToBoolean (Number NaN) = False"
| "ToBoolean (Number (Num r)) = (r \<noteq> 0)"
| "ToBoolean (Number PosInfinity) = True"
| "ToBoolean (Number NegInfinity) = True"

text \<open>\<^verbatim>\<open>v !== 0\<close>: strict inequality does not coerce, so only the number 0 is equal to 0.\<close>

definition strictNotZero :: "jsvalue \<Rightarrow> bool" where
  "strictNotZero v = (v \<noteq> Number (Num 0))"

datatype error = SyntaxError | TypeError

text \<open>\<^verbatim>\<open>xs[i]\<close>: \<open>None\<close> is \<^verbatim>\<open>undefined\<close>.\<close>

definition elementAt :: "'a list \<Rightarrow> nat \<Rightarrow> 'a option" where
  "elementAt xs i = (if i < length xs then Some (xs ! i) else None)"

subsection \<open>Options (lines 1-53)\<close>

datatype key =
    exactMatchPoints
  | exactContainingMatchPoints
  | singleWordMatchPoints
  | singleWordMatchLengthMultiplier
  | uniqueSingleWordMatchPoints
  | uniqueSingleWordMatchLengthMultiplier
  | consecutiveWordMatchPoints
  | consecutiveWordMatchLengthMultiplier
  | consecutiveWordSequenceMatchPoints
  | consecutiveWordSequenceLengthMultiplier
  | isCaseSensitive
  | shouldMatchPunctuation
  | shouldMatchWhitespaceAndPunctuation
  | shouldCollapseWhitespace

type_synonym object = "key \<Rightarrow> jsvalue option"

record SearchInputs =
  query :: string
  body :: string
  options :: "object option"

fun defaultValue :: "key \<Rightarrow> jsvalue" where
  "defaultValue exactMatchPoints = Number (Num 70)"
| "defaultValue exactContainingMatchPoints = Number (Num 50)"
| "defaultValue singleWordMatchPoints = Number (Num 1)"
| "defaultValue singleWordMatchLengthMultiplier = Number (Num 1.5)"
| "defaultValue uniqueSingleWordMatchPoints = Number (Num 2)"
| "defaultValue uniqueSingleWordMatchLengthMultiplier = Number (Num 1.5)"
| "defaultValue consecutiveWordMatchPoints = Number (Num 5)"
| "defaultValue consecutiveWordMatchLengthMultiplier = Number (Num 2)"
| "defaultValue consecutiveWordSequenceMatchPoints = Number (Num 1)"
| "defaultValue consecutiveWordSequenceLengthMultiplier = Number (Num 1.5)"
| "defaultValue isCaseSensitive = Boolean False"
| "defaultValue shouldMatchPunctuation = Boolean True"
| "defaultValue shouldMatchWhitespaceAndPunctuation = Boolean True"
| "defaultValue shouldCollapseWhitespace = Boolean True"

definition defaultSearchOptions :: object where
  "defaultSearchOptions = (\<lambda>k. Some (defaultValue k))"

text \<open>
  \<^verbatim>\<open>{...defaultSearchOptions, ...options}\<close> (lines 233-236): the spread copies every own
  key of its operand, whatever the value; spreading \<^verbatim>\<open>undefined\<close> copies nothing.
\<close>

definition effectiveOptions :: "object option \<Rightarrow> object" where
  "effectiveOptions opts =
     defaultSearchOptions ++ (case opts of None \<Rightarrow> Map.empty | Some override \<Rightarrow> override)"

text \<open>The destructuring of lines 218-233: a key the object lacks reads as \<^verbatim>\<open>undefined\<close>.\<close>

definition destructure :: "object \<Rightarrow> key \<Rightarrow> jsvalue" where
  "destructure obj k = (case obj k of None \<Rightarrow> Undefined | Some v \<Rightarrow> v)"

subsection \<open>Character classes and the string methods of the host\<close>

text \<open>\<^verbatim>\<open>\s\<close>: tab, line feed, vertical tab, form feed, carriage return, space, no-break space.\<close>

definition isWhiteSpace :: "char \<Rightarrow> bool" where
  "isWhiteSpace c =
     (c \<in> set [CHR 0x09, CHR 0x0A, CHR 0x0B, CHR 0x0C, CHR 0x0D, CHR 0x20, CHR 0xA0])"

text \<open>\<^verbatim>\<open>\w\<close> is \<^verbatim>\<open>[A-Za-z0-9_]\<close>; \<^verbatim>\<open>\W\<close> is its complement.\<close>

definition isWordChar :: "char \<Rightarrow> bool" where
  "isWordChar c =
     (c \<in> set ''ABCDEFGHIJKLMNOPQRSTUVWXYZabcdefghijklmnopqrstuvwxyz0123456789_'')"

text \<open>
  The syntax characters of a pattern: \<^verbatim>\<open>^ $ \ . * + ? ( ) [ ] { } |\<close>. A pattern without
  them is a sequence of pattern characters, each matching itself.
\<close>

definition isSyntaxCharacter :: "char \<Rightarrow> bool" where
  "isSyntaxCharacter c = (c \<in> set (''^$'' @ [CHR 0x5C] @ ''.*+?()[]{}|''))"

text \<open>
  \<^verbatim>\<open>toLocaleLowerCase\<close> on the code units 0 to 255, for a host locale without special
  casing rules: A-Z and the Latin-1 capitals (C0-DE but D7) move up by 0x20.
\<close>

definition upperCaseLetters :: string where
  "upperCaseLetters = ''ABCDEFGHIJKLMNOPQRSTUVWXYZ'' @
     [CHR 0xC0, CHR 0xC1, CHR 0xC2, CHR 0xC3, CHR 0xC4, CHR 0xC5, CHR 0xC6, CHR 0xC7,
      CHR 0xC8, CHR 0xC9, CHR 0xCA, CHR 0xCB, CHR 0xCC, CHR 0xCD, CHR 0xCE, CHR 0xCF,
      CHR 0xD0, CHR 0xD1, CHR 0xD2, CHR 0xD3, CHR 0xD4, CHR 0xD5, CHR 0xD6,
      CHR 0xD8, CHR 0xD9, CHR 0xDA, CHR 0xDB, CHR 0xDC, CHR 0xDD, CHR 0xDE]"

definition lowerCaseLetters :: string where
  "lowerCaseLetters = ''abcdefghijklmnopqrstuvwxyz'' @
     [CHR 0xE0, CHR 0xE1, CHR 0xE2, CHR 0xE3, CHR 0xE4, CHR 0xE5, CHR 0xE6, CHR 0xE7,
      CHR 0xE8, CHR 0xE9, CHR 0xEA, CHR 0xEB, CHR 0xEC, CHR 0xED, CHR 0xEE, CHR 0xEF,
      CHR 0xF0, CHR 0xF1, CHR 0xF2, CHR 0xF3, CHR 0xF4, CHR 0xF5, CHR 0xF6,
      CHR 0xF8, CHR 0xF9, CHR 0xFA, CHR 0xFB, CHR 0xFC, CHR 0xFD, CHR 0xFE]"

definition toLowerCaseChar :: "char \<Rightarrow> char" where
  "toLowerCaseChar c =
     (case map_of (zip upperCaseLetters lowerCaseLetters) c of None \<Rightarrow> c | Some l \<Rightarrow> l)"

definition toLocaleLowerCase :: "string \<Rightarrow> string" where
  "toLocaleLowerCase s = map toLowerCaseChar s"

text \<open>\<^verbatim>\<open>text.replace(/[/#%&=-]/g, " ")\<close> (line 206).\<close>

definition replaceSeparators :: "string \<Rightarrow> string" where
  "replaceSeparators s = map (\<lambda>c. if c \<in> set ''/#%&=-'' then CHR '' '' else c) s"

text \<open>\<^verbatim>\<open>text.replace(/[.,'!$^*;:{}`~()]/g, "")\<close> (line 207).\<close>

definition isRemovedPunctuation :: "char \<Rightarrow> bool" where
  "isRemovedPunctuation c = (c \<in> set (''.,'' @ [CHR 0x27] @ ''!$^*;:{}`~()''))"

definition removePunctuation :: "string \<Rightarrow> string" where
  "removePunctuation s = filter (\<lambda>c. \<not> isRemovedPunctuation c) s"

text \<open>
  \<^verbatim>\<open>text.replace(/\s\s+/g, " ")\<close> (line 211): scanning left to right, a white-space
  character followed by another starts a match, which takes the whole run (the
  quantifier is greedy) and is replaced by one space.
\<close>

function collapseWhitespace :: "string \<Rightarrow> string" where
  "collapseWhitespace [] = []"
| "collapseWhitespace [c] = [c]"
| "collapseWhitespace (c # d # cs) =
     (if isWhiteSpace c \<and> isWhiteSpace d
      then CHR '' '' # collapseWhitespace (dropWhile isWhiteSpace cs)
      else c # collapseWhitespace (d # cs))"
  by pat_completeness auto
termination
  by (relation "measure length") (auto simp: le_imp_less_Suc length_dropWhile_le le_SucI)

text \<open>
  \<^verbatim>\<open>text.split(/(\W+)/)\<close> (line 90): the pieces between the maximal runs of non-word
  characters, with the runs themselves (the capture group) in between. The first
  and the last piece may be empty; the empty string splits into one empty piece.
\<close>

function splitNonWord :: "string \<Rightarrow> string list" where
  "splitNonWord s =
     (let piece = takeWhile isWordChar s; rest = dropWhile isWordChar s
      in if rest = [] then [piece]
         else piece # takeWhile (\<lambda>c. \<not> isWordChar c) rest
                # splitNonWord (dropWhile (\<lambda>c. \<not> isWordChar c) rest))"
  by pat_completeness auto
termination
proof (relation "measure length")
  show "wf (measure length)" by simp
next
  fix s piece rest :: string
  assume rest: "rest = dropWhile isWordChar s" and ne: "rest \<noteq> []"
  from ne obtain a t where cons: "rest = a # t" by (cases rest) simp_all
  from rest ne have "\<not> isWordChar (hd rest)" by (metis hd_dropWhile)
  with cons have "length (dropWhile (\<lambda>c. \<not> isWordChar c) rest) \<le> length t"
    by (simp add: length_dropWhile_le)
  moreover have "length rest \<le> length s" using rest by (simp add: length_dropWhile_le)
  ultimately show "(dropWhile (\<lambda>c. \<not> isWordChar c) rest, s) \<in> measure length"
    using cons by simp
qed

text \<open>
  \<^verbatim>\<open>text.match(/\S+/g) || []\<close> (lines 94, 97): skip white space, take the run of other
  characters up to the next white space, repeat; no match at all gives the empty list.
\<close>

function matchNonSpace :: "string \<Rightarrow> string list" where
  "matchNonSpace s =
     (let rest = dropWhile isWhiteSpace s
      in if rest = [] then []
         else takeWhile (\<lambda>c. \<not> isWhiteSpace c) rest
                # matchNonSpace (dropWhile (\<lambda>c. \<not> isWhiteSpace c) rest))"
  by pat_completeness auto
termination
proof (relation "measure length")
  show "wf (measure length)" by simp
next
  fix s rest :: string
  assume rest: "rest = dropWhile isWhiteSpace s" and ne: "rest \<noteq> []"
  from ne obtain a t where cons: "rest = a # t" by (cases rest) simp_all
  from rest ne have "\<not> isWhiteSpace (hd rest)" by (metis hd_dropWhile)
  with cons have "length (dropWhile (\<lambda>c. \<not> isWhiteSpace c) rest) \<le> length t"
    by (simp add: length_dropWhile_le)
  moreover have "length rest \<le> length s" using rest by (simp add: length_dropWhile_le)
  ultimately show "(dropWhile (\<lambda>c. \<not> isWhiteSpace c) rest, s) \<in> measure length"
    using cons by simp
qed

text \<open>\<^verbatim>\<open>word.trim()\<close>: white space removed at both ends.\<close>

definition trim :: "string \<Rightarrow> string" where
  "trim s = rev (dropWhile isWhiteSpace (rev (dropWhile isWhiteSpace s)))"

text \<open>
  \<^verbatim>\<open>(body.match(new RegExp(query, "g")) || []).length\<close> for a query without syntax
  characters: the matches are found left to right, each search starting where the
  last match ended. The empty pattern matches the empty string at every index, the
  end of the text included, and the search then moves on by one code unit.
\<close>

function literalMatches :: "string \<Rightarrow> string \<Rightarrow> nat" where
  "literalMatches p [] = (if p = [] then 1 else 0)"
| "literalMatches p (c # cs) =
     (if p = [] then 1 + literalMatches p cs
      else if take (length p) (c # cs) = p
           then 1 + literalMatches p (drop (length p) (c # cs))
           else literalMatches p cs)"
  by pat_completeness auto
termination
  by (relation "measure (\<lambda>(p, s). length s)") auto

text \<open>
  The host's engine on the other patterns: the pattern and the text give either the
  exception of the constructor or the number of matches.
\<close>

type_synonym regexp_engine = "string \<Rightarrow> string \<Rightarrow> error + nat"

subsection \<open>Normalizer (lines 195-215)\<close>

definition getConfiguredText :: "string \<Rightarrow> bool \<Rightarrow> bool \<Rightarrow> bool \<Rightarrow> string" where
  "getConfiguredText text0 isCaseSensitive' shouldMatchPunctuation' shouldCollapseWhitespace' =
     (let text1 = (if \<not> isCaseSensitive' then toLocaleLowerCase text0 else text0);
          text2 = (if \<not> shouldMatchPunctuation'
                   then removePunctuation (replaceSeparators text1) else text1);
          text3 = (if shouldCollapseWhitespace' then collapseWhitespace text2 else text2)
      in text3)"

subsection \<open>Tokenizer (lines 84-98)\<close>

text \<open>
  In the branch of line 93 the filtered list is an expression statement: it is
  computed and dropped, and line 97 returns the unfiltered matches.
\<close>

definition getWords :: "string \<Rightarrow> bool \<Rightarrow> bool \<Rightarrow> string list" where
  "getWords text0 shouldMatchWhitespaceAndPunctuation' shouldMatchPunctuation' =
     (if shouldMatchWhitespaceAndPunctuation' then splitNonWord text0
      else (let dropped = (if shouldMatchPunctuation'
                           then filter (\<lambda>word. length (trim word) > 0) (matchNonSpace text0)
                           else [])
            in matchNonSpace text0))"

subsection \<open>Exact matchers (lines 55-62)\<close>

definition getExactMatchScore :: "string \<Rightarrow> string \<Rightarrow> nat" where
  "getExactMatchScore query0 body0 = (if query0 = body0 then 1 else 0)"

definition getExactContainingMatchScore ::
  "regexp_engine \<Rightarrow> string \<Rightarrow> string \<Rightarrow> error + nat" where
  "getExactContainingMatchScore engine query0 body0 =
     (if list_ex isSyntaxCharacter query0 then engine query0 body0
      else Inr (literalMatches query0 body0))"

subsection \<open>Dampening factor (lines 64-82)\<close>

text \<open>The class of line 66: the space and the 32 punctuation characters of ASCII.\<close>

definition isDampenedCharacter :: "char \<Rightarrow> bool" where
  "isDampenedCharacter c =
     (c \<in> set ('' `!@#$%^&*()_+-=[]{};'' @ [CHR 0x27] @ '':'' @ [CHR 0x22, CHR 0x5C]
               @ ''|,.<>/?~''))"

definition getCustomWordMultiplier :: "string \<Rightarrow> real" where
  "getCustomWordMultiplier word =
     (if length word = 1 \<and> list_ex isDampenedCharacter word then 1 / 10
      else if word = ''the'' \<or> word = ''a'' \<or> word = ''of'' \<or> word = ''I'' \<or> word = ''and''
           then 1 / 2
           else 1)"

subsection \<open>Frequency scorers (lines 100-137)\<close>

definition getSingleWordMatchScore ::
  "string list \<Rightarrow> string list \<Rightarrow> jsnumber \<Rightarrow> jsnumber" where
  "getSingleWordMatchScore queryWords bodyWords singleWordMatchLengthMultiplier' =
     (let sharedWords = filter (\<lambda>queryWord. queryWord \<in> set bodyWords) queryWords
      in foldl (\<lambda>score0 queryWord.
                  jsAdd score0
                    (jsMul (jsMul (jsMul
                       (Num (real (length (filter (\<lambda>bodyWord. bodyWord = queryWord) bodyWords))))
                       (Num (real (length queryWord))))
                       singleWordMatchLengthMultiplier')
                       (Num (getCustomWordMultiplier queryWord))))
           (Num 0) sharedWords)"

definition getUniqueSingleWordMatchScore ::
  "string list \<Rightarrow> string list \<Rightarrow> jsnumber \<Rightarrow> jsnumber" where
  "getUniqueSingleWordMatchScore queryWords bodyWords uniqueSingleWordMatchLengthMultiplier' =
     (let sharedWords = filter (\<lambda>element. element \<in> set bodyWords) queryWords
      in foldl (\<lambda>score0 word.
                  jsAdd score0
                    (jsMul (jsMul (Num (real (length word)))
                       uniqueSingleWordMatchLengthMultiplier')
                       (Num (getCustomWordMultiplier word))))
           (Num 0) sharedWords)"

subsection \<open>Consecutive-sequence scorer (lines 139-193)\<close>

text \<open>
  Lines 153-157: each body word is mapped to its index when it equals the query word
  at the start position and to the empty string otherwise; \<^verbatim>\<open>filter(String)\<close> keeps the
  indexes, since the decimal string of an index is never empty. \<open>None\<close> stands for the
  empty string.
\<close>

definition matchIndexes :: "string list \<Rightarrow> string option \<Rightarrow> nat option list" where
  "matchIndexes bodyWords queryWord =
     filter (\<lambda>x. x \<noteq> None)
       (map (\<lambda>(bodyWord, index). if Some bodyWord = queryWord then Some index else None)
            (zip bodyWords [0..<length bodyWords]))"

text \<open>The variables of the two loops.\<close>

record scan =
  mostConsecutiveWords :: nat
  longestConsecutiveWordSequence :: nat
  firstBodyWord :: nat
  currentConsecutiveWords :: nat
  currentConsecutiveWordSequence :: nat

text \<open>How the inner loop ended: by the \<^verbatim>\<open>break\<close> of line 178, or by its condition.\<close>

datatype ending = Broke | Exhausted

text \<open>
  The inner loop (lines 161-184), from the state \<open>s\<close> on; \<open>n\<close> is
  \<^verbatim>\<open>matchIndexes.length\<close>. The comparison of line 167 is between two array reads, each
  possibly \<^verbatim>\<open>undefined\<close>; line 182 reads \<^verbatim>\<open>.length\<close> of the body word, which throws
  when that word is \<^verbatim>\<open>undefined\<close>.
\<close>

function innerLoop ::
  "string list \<Rightarrow> string list \<Rightarrow> nat \<Rightarrow> nat \<Rightarrow> scan \<Rightarrow> error + (ending \<times> scan)" where
  "innerLoop queryWords bodyWords firstQueryWord n s =
     (if firstBodyWord s < n
      then (if elementAt queryWords (firstQueryWord + currentConsecutiveWords s)
               \<noteq> elementAt bodyWords (firstBodyWord s + currentConsecutiveWords s)
            then Inr (Broke, s\<lparr>mostConsecutiveWords :=
                                 max (mostConsecutiveWords s) (currentConsecutiveWords s),
                               longestConsecutiveWordSequence :=
                                 max (longestConsecutiveWordSequence s)
                                     (currentConsecutiveWordSequence s)\<rparr>)
            else (case elementAt bodyWords (firstBodyWord s + currentConsecutiveWords s) of
                    None \<Rightarrow> Inl TypeError
                  | Some bodyWord \<Rightarrow>
                      innerLoop queryWords bodyWords firstQueryWord n
                        (s\<lparr>currentConsecutiveWordSequence :=
                             currentConsecutiveWordSequence s + length bodyWord,
                           currentConsecutiveWords := currentConsecutiveWords s + 1,
                           firstBodyWord := firstBodyWord s + 1\<rparr>)))
      else Inr (Exhausted, s))"
  by pat_completeness auto
termination
  by (relation "measure (\<lambda>(queryWords, bodyWords, firstQueryWord, n, s). n - firstBodyWord s)")
     auto

text \<open>The declarations of lines 159-162: the variables of the inner loop start at 0.\<close>

definition startScan :: "scan \<Rightarrow> scan" where
  "startScan s = s\<lparr>firstBodyWord := 0, currentConsecutiveWords := 0,
                   currentConsecutiveWordSequence := 0\<rparr>"

text \<open>The outer loop (lines 148-185), from the start position \<open>firstQueryWord\<close> on.\<close>

function outerLoop ::
  "string list \<Rightarrow> string list \<Rightarrow> nat \<Rightarrow> scan \<Rightarrow> error + scan" where
  "outerLoop queryWords bodyWords firstQueryWord s =
     (if firstQueryWord < length queryWords
      then (case innerLoop queryWords bodyWords firstQueryWord
                   (length (matchIndexes bodyWords (elementAt queryWords firstQueryWord)))
                   (startScan s) of
              Inl e \<Rightarrow> Inl e
            | Inr (how, s') \<Rightarrow> outerLoop queryWords bodyWords (firstQueryWord + 1) s')
      else Inr s)"
  by pat_completeness auto
termination
  by (relation "measure (\<lambda>(queryWords, bodyWords, firstQueryWord, s).
                           length queryWords - firstQueryWord)")
     auto

record consecutiveScores =
  consecutiveWordScore :: jsnumber
  consecutiveWordSequenceScore :: jsnumber

definition getConsecutiveWordSequenceMatchScore ::
  "string list \<Rightarrow> string list \<Rightarrow> jsnumber \<Rightarrow> jsnumber \<Rightarrow> error + consecutiveScores" where
  "getConsecutiveWordSequenceMatchScore queryWords bodyWords
       consecutiveWordMatchLengthMultiplier' consecutiveWordSequenceLengthMultiplier' =
     (case outerLoop queryWords bodyWords 0
             \<lparr>mostConsecutiveWords = 0, longestConsecutiveWordSequence = 0,
              firstBodyWord = 0, currentConsecutiveWords = 0,
              currentConsecutiveWordSequence = 0\<rparr> of
        Inl e \<Rightarrow> Inl e
      | Inr s \<Rightarrow>
          Inr \<lparr>consecutiveWordScore =
                 jsMul (Num (real (mostConsecutiveWords s)))
                       consecutiveWordMatchLengthMultiplier',
               consecutiveWordSequenceScore =
                 jsMul (Num (real (longestConsecutiveWordSequence s)))
                       consecutiveWordSequenceLengthMultiplier'\<rparr>)"

subsection \<open>Aggregation (lines 217-318)\<close>

text \<open>
  A run of \<^verbatim>\<open>search\<close> keeps the running score, the scorer functions it has called so
  far, and the exception thrown, if any. Once an exception is thrown no later
  statement runs.
\<close>

datatype scorer =
    ExactMatch
  | ExactContainingMatch
  | SingleWordMatch
  | UniqueSingleWordMatch
  | ConsecutiveWordSequenceMatch

record run =
  score :: jsnumber
  invoked :: "scorer list"
  thrown :: "error option"

definition andThen :: "run \<Rightarrow> (run \<Rightarrow> run) \<Rightarrow> run" where
  "andThen r step = (if thrown r = None then step r else r)"

text \<open>Lines 254-257.\<close>

definition exactMatchStep :: "(key \<Rightarrow> jsvalue) \<Rightarrow> string \<Rightarrow> string \<Rightarrow> run \<Rightarrow> run" where
  "exactMatchStep cfg formattedQuery formattedBody r =
     (if strictNotZero (cfg exactMatchPoints)
      then r\<lparr>score := jsAdd (score r)
                 (jsMul (ToNumber (cfg exactMatchPoints))
                        (Num (real (getExactMatchScore formattedQuery formattedBody)))),
             invoked := invoked r @ [ExactMatch]\<rparr>
      else r)"

text \<open>Lines 259-263.\<close>

definition exactContainingMatchStep ::
  "regexp_engine \<Rightarrow> (key \<Rightarrow> jsvalue) \<Rightarrow> string \<Rightarrow> string \<Rightarrow> run \<Rightarrow> run" where
  "exactContainingMatchStep engine cfg formattedQuery formattedBody r =
     (if strictNotZero (cfg exactContainingMatchPoints)
      then (case getExactContainingMatchScore engine formattedQuery formattedBody of
              Inl e \<Rightarrow> r\<lparr>invoked := invoked r @ [ExactContainingMatch], thrown := Some e\<rparr>
            | Inr n \<Rightarrow>
                r\<lparr>score := jsAdd (score r)
                     (jsMul (ToNumber (cfg exactContainingMatchPoints)) (Num (real n))),
                  invoked := invoked r @ [ExactContainingMatch]\<rparr>)
      else r)"

text \<open>Lines 276-284.\<close>

definition singleWordMatchStep ::
  "(key \<Rightarrow> jsvalue) \<Rightarrow> string list \<Rightarrow> string list \<Rightarrow> run \<Rightarrow> run" where
  "singleWordMatchStep cfg queryWords bodyWords r =
     (if strictNotZero (cfg singleWordMatchPoints)
         \<and> strictNotZero (cfg singleWordMatchLengthMultiplier)
      then r\<lparr>score := jsAdd (score r)
                 (jsMul (ToNumber (cfg singleWordMatchPoints))
                        (getSingleWordMatchScore queryWords bodyWords
                           (ToNumber (cfg singleWordMatchLengthMultiplier)))),
             invoked := invoked r @ [SingleWordMatch]\<rparr>
      else r)"

text \<open>Lines 286-297.\<close>

definition uniqueSingleWordMatchStep ::
  "(key \<Rightarrow> jsvalue) \<Rightarrow> string list \<Rightarrow> string list \<Rightarrow> run \<Rightarrow> run" where
  "uniqueSingleWordMatchStep cfg queryWords bodyWords r =
     (if strictNotZero (cfg uniqueSingleWordMatchPoints)
         \<and> strictNotZero (cfg uniqueSingleWordMatchLengthMultiplier)
      then r\<lparr>score := jsAdd (score r)
                 (jsMul (ToNumber (cfg uniqueSingleWordMatchPoints))
                        (getUniqueSingleWordMatchScore queryWords bodyWords
                           (ToNumber (cfg uniqueSingleWordMatchLengthMultiplier)))),
             invoked := invoked r @ [UniqueSingleWordMatch]\<rparr>
      else r)"

text \<open>Lines 299-315: one call computes both consecutive scores, and both are added.\<close>

definition consecutiveWordStep ::
  "(key \<Rightarrow> jsvalue) \<Rightarrow> string list \<Rightarrow> string list \<Rightarrow> run \<Rightarrow> run" where
  "consecutiveWordStep cfg queryWords bodyWords r =
     (if (strictNotZero (cfg consecutiveWordMatchPoints)
            \<and> strictNotZero (cfg consecutiveWordMatchLengthMultiplier))
         \<or> (strictNotZero (cfg consecutiveWordSequenceMatchPoints)
            \<and> strictNotZero (cfg consecutiveWordSequenceLengthMultiplier))
      then (case getConsecutiveWordSequenceMatchScore queryWords bodyWords
                   (ToNumber (cfg consecutiveWordMatchLengthMultiplier))
                   (ToNumber (cfg consecutiveWordSequenceLengthMultiplier)) of
              Inl e \<Rightarrow>
                r\<lparr>invoked := invoked r @ [ConsecutiveWordSequenceMatch], thrown := Some e\<rparr>
            | Inr scores \<Rightarrow>
                r\<lparr>score :=
                    jsAdd (jsAdd (score r)
                             (jsMul (ToNumber (cfg consecutiveWordMatchPoints))
                                    (consecutiveWordScore scores)))
                          (jsMul (ToNumber (cfg consecutiveWordSequenceMatchPoints))
                                 (consecutiveWordSequenceScore scores)),
                  invoked := invoked r @ [ConsecutiveWordSequenceMatch]\<rparr>)
      else r)"

definition searchRun :: "regexp_engine \<Rightarrow> SearchInputs \<Rightarrow> run" where
  "searchRun engine inputs =
     (let cfg = destructure (effectiveOptions (options inputs));
          formattedQuery = getConfiguredText (query inputs)
            (ToBoolean (cfg isCaseSensitive)) (ToBoolean (cfg shouldMatchPunctuation))
            (ToBoolean (cfg shouldCollapseWhitespace));
          formattedBody = getConfiguredText (body inputs)
            (ToBoolean (cfg isCaseSensitive)) (ToBoolean (cfg shouldMatchPunctuation))
            (ToBoolean (cfg shouldCollapseWhitespace));
          r0 = \<lparr>score = Num 0, invoked = [], thrown = None\<rparr>;
          r1 = exactMatchStep cfg formattedQuery formattedBody r0;
          r2 = andThen r1 (exactContainingMatchStep engine cfg formattedQuery formattedBody);
          queryWords = getWords formattedQuery
            (ToBoolean (cfg shouldMatchWhitespaceAndPunctuation))
            (ToBoolean (cfg shouldMatchPunctuation));
          bodyWords = getWords formattedBody
            (ToBoolean (cfg shouldMatchWhitespaceAndPunctuation))
            (ToBoolean (cfg shouldMatchPunctuation));
          r3 = andThen r2 (singleWordMatchStep cfg queryWords bodyWords);
          r4 = andThen r3 (uniqueSingleWordMatchStep cfg queryWords bodyWords);
          r5 = andThen r4 (consecutiveWordStep cfg queryWords bodyWords)
      in r5)"

text \<open>What the caller of \<^verbatim>\<open>search\<close> gets: the exception, or the returned score.\<close>

definition search :: "regexp_engine \<Rightarrow> SearchInputs \<Rightarrow> error + jsnumber" where
  "search engine inputs =
     (let r = searchRun engine inputs
      in case thrown r of Some e \<Rightarrow> Inl e | None \<Rightarrow> Inr (score r))"

text \<open>
  An engine for closed examples: it rejects every pattern it is asked about. The
  examples below that use it have queries without syntax characters, so that it is
  never consulted.
\<close>

definition rejectingEngine :: regexp_engine where
  "rejectingEngine pattern subject = Inl SyntaxError"

section \<open>Notions the properties are stated with\<close>

text \<open>
  The maximal runs of non-white-space characters of a text, stated without
  reference to the scan of \<open>matchNonSpace\<close>: cut the text at every white-space
  character and keep the pieces that are not empty.
\<close>

fun fields :: "string \<Rightarrow> string list" where
  "fields [] = [[]]"
| "fields (c # cs) =
     (if isWhiteSpace c then [] # fields cs
      else (case fields cs of [] \<Rightarrow> [[c]] | f # fs \<Rightarrow> (c # f) # fs))"

definition maximalNonSpaceRuns :: "string \<Rightarrow> string list" where
  "maximalNonSpaceRuns s = filter (\<lambda>w. w \<noteq> []) (fields s)"

text \<open>A run of white space: two white-space characters next to each other.\<close>

fun hasWhiteSpaceRun :: "string \<Rightarrow> bool" where
  "hasWhiteSpaceRun [] = False"
| "hasWhiteSpaceRun [c] = False"
| "hasWhiteSpaceRun (c # d # cs) =
     ((isWhiteSpace c \<and> isWhiteSpace d) \<or> hasWhiteSpaceRun (d # cs))"

text \<open>Texts the case folding, and the punctuation removal, leave as they are.\<close>

definition lowered :: "string \<Rightarrow> bool" where
  "lowered s = (\<forall>c \<in> set s. toLowerCaseChar c = c)"

definition stripped :: "string \<Rightarrow> bool" where
  "stripped s = (\<forall>c \<in> set s. c \<notin> set ''/#%&=-'' \<and> \<not> isRemovedPunctuation c)"

text \<open>
  The dampening factor as the specification words it: 0.1 for a single character
  that is a punctuation or symbol character, 0.5 for the five stop-words, 1
  otherwise. The punctuation and symbol characters of ASCII are the 32 printable
  characters that are neither letters, digits nor the space.
\<close>

definition isPunctuationOrSymbol :: "char \<Rightarrow> bool" where
  "isPunctuationOrSymbol c =
     (c \<in> set (''!'' @ [CHR 0x22] @ ''#$%&'' @ [CHR 0x27] @ ''()*+,-./:;<=>?@['' @ [CHR 0x5C]
               @ '']^_`{|}~''))"

definition stopWords :: "string list" where
  "stopWords = [''the'', ''a'', ''of'', ''I'', ''and'']"

definition dampeningAsStated :: "string \<Rightarrow> real" where
  "dampeningAsStated word =
     (if length word = 1 \<and> list_ex isPunctuationOrSymbol word then 1 / 10
      else if word \<in> set stopWords then 1 / 2
      else 1)"

text \<open>\<^verbatim>\<open>x >= 0\<close> on numbers: true of positive infinity, false of \<^verbatim>\<open>NaN\<close>.\<close>

fun atLeastZero :: "jsnumber \<Rightarrow> bool" where
  "atLeastZero (Num r) = (0 \<le> r)"
| "atLeastZero PosInfinity = True"
| "atLeastZero NegInfinity = False"
| "atLeastZero NaN = False"

text \<open>
  An options record whose numeric fields are nonnegative: each of the ten weights and
  multipliers is either absent or a number \<open>x\<close> with \<^verbatim>\<open>x >= 0\<close>, positive infinity included.
\<close>

definition numericKeys :: "key list" where
  "numericKeys =
     [exactMatchPoints, exactContainingMatchPoints, singleWordMatchPoints,
      singleWordMatchLengthMultiplier, uniqueSingleWordMatchPoints,
      uniqueSingleWordMatchLengthMultiplier, consecutiveWordMatchPoints,
      consecutiveWordMatchLengthMultiplier, consecutiveWordSequenceMatchPoints,
      consecutiveWordSequenceLengthMultiplier]"

fun nonNegativeNumber :: "jsvalue \<Rightarrow> bool" where
  "nonNegativeNumber (Number n) = atLeastZero n"
| "nonNegativeNumber Undefined = False"
| "nonNegativeNumber (Boolean b) = False"

definition nonNegativeOptions :: "object option \<Rightarrow> bool" where
  "nonNegativeOptions opts =
     (case opts of
        None \<Rightarrow> True
      | Some override \<Rightarrow>
          list_all (\<lambda>k. case override k of None \<Rightarrow> True | Some v \<Rightarrow> nonNegativeNumber v)
            numericKeys)"

text \<open>A number that is not negative: at least 0, positive infinity, or \<^verbatim>\<open>NaN\<close>.\<close>

fun neverNegative :: "jsnumber \<Rightarrow> bool" where
  "neverNegative (Num r) = (0 \<le> r)"
| "neverNegative PosInfinity = True"
| "neverNegative NaN = True"
| "neverNegative NegInfinity = False"

text \<open>
  How many times the body of the inner loop was entered: once for every completed
  iteration (the loop counter at the end), and once more for the iteration the
  \<^verbatim>\<open>break\<close> cut short.
\<close>

fun iterationsRun :: "ending \<times> scan \<Rightarrow> nat" where
  "iterationsRun (Broke, s) = firstBodyWord s + 1"
| "iterationsRun (Exhausted, s) = firstBodyWord s"

section \<open>Properties\<close>

text \<open>
  The recursion equations of the scans are unfolded by hand: as rewrite rules they
  apply to their own right-hand sides.
\<close>

declare splitNonWord.simps [simp del]
declare matchNonSpace.simps [simp del]
declare innerLoop.simps [simp del]
declare outerLoop.simps [simp del]

subsection \<open>Tokenizer: word-only mode\<close>

lemma fields_run:
  "fields r = (case dropWhile (\<lambda>c. \<not> isWhiteSpace c) r of
                 [] \<Rightarrow> [takeWhile (\<lambda>c. \<not> isWhiteSpace c) r]
               | x # xs \<Rightarrow> takeWhile (\<lambda>c. \<not> isWhiteSpace c) r # fields xs)"
proof (induction r)
  case Nil
  show ?case by simp
next
  case (Cons c r)
  show ?case
  proof (cases "isWhiteSpace c")
    case True
    then show ?thesis by simp
  next
    case False
    then show ?thesis using Cons
      by (cases "dropWhile (\<lambda>c. \<not> isWhiteSpace c) r")
         (simp_all del: dropWhile_eq_Nil_conv)
  qed
qed

lemma runs_skip: "maximalNonSpaceRuns s = maximalNonSpaceRuns (dropWhile isWhiteSpace s)"
  by (induction s) (simp_all add: maximalNonSpaceRuns_def)

lemma runs_step:
  "maximalNonSpaceRuns r =
     filter (\<lambda>w. w \<noteq> []) [takeWhile (\<lambda>c. \<not> isWhiteSpace c) r]
       @ maximalNonSpaceRuns (dropWhile (\<lambda>c. \<not> isWhiteSpace c) r)"
proof (cases "dropWhile (\<lambda>c. \<not> isWhiteSpace c) r")
  case Nil
  then show ?thesis
    unfolding maximalNonSpaceRuns_def
    by (subst fields_run) (simp del: dropWhile_eq_Nil_conv)
next
  case (Cons x xs)
  have "isWhiteSpace x"
    using Cons hd_dropWhile [of "\<lambda>c. \<not> isWhiteSpace c" r] by simp
  then show ?thesis
    using Cons unfolding maximalNonSpaceRuns_def
    by (subst fields_run) (simp del: dropWhile_eq_Nil_conv)
qed

lemma matchNonSpace_runs: "matchNonSpace s = maximalNonSpaceRuns s"
proof (induction s rule: matchNonSpace.induct)
  case (1 s)
  define rest where "rest = dropWhile isWhiteSpace s"
  show ?case
  proof (cases "rest = []")
    case True
    then have "maximalNonSpaceRuns s = []"
      using runs_skip [of s]
      by (simp add: rest_def maximalNonSpaceRuns_def del: dropWhile_eq_Nil_conv)
    moreover have "matchNonSpace s = []"
      using True
      by (subst matchNonSpace.simps) (simp add: rest_def del: dropWhile_eq_Nil_conv)
    ultimately show ?thesis by simp
  next
    case False
    then obtain a t where cons: "rest = a # t" by (cases rest) simp_all
    have nws: "\<not> isWhiteSpace a"
      using cons hd_dropWhile [of isWhiteSpace s] by (simp add: rest_def)
    let ?w = "takeWhile (\<lambda>c. \<not> isWhiteSpace c) rest"
    let ?d = "dropWhile (\<lambda>c. \<not> isWhiteSpace c) rest"
    have w_ne: "?w \<noteq> []" using cons nws by simp
    have IH: "matchNonSpace ?d = maximalNonSpaceRuns ?d"
      using "1.IH" [OF rest_def False] .
    have m: "matchNonSpace s = ?w # matchNonSpace ?d"
      using False
      by (subst matchNonSpace.simps) (simp add: rest_def Let_def del: dropWhile_eq_Nil_conv)
    have "maximalNonSpaceRuns rest = ?w # maximalNonSpaceRuns ?d"
      using runs_step [of rest] w_ne by simp
    then show ?thesis using m IH runs_skip [of s] by (simp add: rest_def)
  qed
qed

text \<open>
  C10. In word-only mode (\<open>shouldMatchWhitespaceAndPunctuation = false\<close>) the tokens
  are the maximal runs of non-white-space characters of the text, whatever the value
  of \<open>shouldMatchPunctuation\<close>: the filtered list of line 94 is dropped, so the flag has
  no effect on the result.
\<close>

theorem getWords_word_only_mode:
  "getWords text0 False flag = maximalNonSpaceRuns text0
   \<and> getWords text0 False True = getWords text0 False False"
  by (simp add: getWords_def matchNonSpace_runs Let_def)

subsection \<open>Normalizer\<close>

lemma lower_range_fixed:
  "\<forall>l \<in> set lowerCaseLetters. map_of (zip upperCaseLetters lowerCaseLetters) l = None"
  by code_simp

lemma toLowerCaseChar_idem: "toLowerCaseChar (toLowerCaseChar c) = toLowerCaseChar c"
proof (cases "map_of (zip upperCaseLetters lowerCaseLetters) c")
  case None
  then show ?thesis by (simp add: toLowerCaseChar_def)
next
  case (Some l)
  then have "l \<in> set lowerCaseLetters"
    by (meson map_of_SomeD set_zip_rightD)
  with lower_range_fixed have "map_of (zip upperCaseLetters lowerCaseLetters) l = None"
    by blast
  with Some show ?thesis by (simp add: toLowerCaseChar_def)
qed

lemma toLowerCaseChar_space: "toLowerCaseChar (CHR '' '') = CHR '' ''"
  by code_simp

lemma lowered_lower: "lowered (toLocaleLowerCase s)"
  by (simp add: lowered_def toLocaleLowerCase_def toLowerCaseChar_idem)

lemma lowered_id: "lowered s \<Longrightarrow> toLocaleLowerCase s = s"
  by (simp add: lowered_def toLocaleLowerCase_def map_idI)

lemma space_not_removed: "\<not> isRemovedPunctuation (CHR '' '')"
  by (simp add: isRemovedPunctuation_def)

lemma stripped_strip: "stripped (removePunctuation (replaceSeparators s))"
  using space_not_removed
  by (auto simp: stripped_def removePunctuation_def replaceSeparators_def)

lemma stripped_id: "stripped s \<Longrightarrow> removePunctuation (replaceSeparators s) = s"
proof -
  assume a: "stripped s"
  then have "replaceSeparators s = s"
    unfolding replaceSeparators_def stripped_def by (intro map_idI) auto
  moreover have "removePunctuation s = s"
    using a unfolding removePunctuation_def stripped_def by (intro filter_True) auto
  ultimately show ?thesis by simp
qed

lemma set_strip: "set (removePunctuation (replaceSeparators s)) \<subseteq> insert (CHR '' '') (set s)"
  by (auto simp: removePunctuation_def replaceSeparators_def split: if_splits)

lemma set_collapse: "set (collapseWhitespace s) \<subseteq> insert (CHR '' '') (set s)"
proof (induction s rule: collapseWhitespace.induct)
  case (3 c d cs)
  have "set (dropWhile isWhiteSpace cs) \<subseteq> set cs" by (rule set_dropWhileD [THEN subsetI]) 
  with 3 show ?case by (auto split: if_splits)
qed simp_all

lemma lowered_strip: "lowered s \<Longrightarrow> lowered (removePunctuation (replaceSeparators s))"
  using set_strip [of s] toLowerCaseChar_space by (auto simp: lowered_def)

lemma lowered_collapse: "lowered s \<Longrightarrow> lowered (collapseWhitespace s)"
  using set_collapse [of s] toLowerCaseChar_space by (auto simp: lowered_def)

lemma stripped_collapse: "stripped s \<Longrightarrow> stripped (collapseWhitespace s)"
  using set_collapse [of s] space_not_removed by (auto simp: stripped_def)

lemma collapse_head:
  "s \<noteq> [] \<Longrightarrow> collapseWhitespace s \<noteq> []
     \<and> isWhiteSpace (hd (collapseWhitespace s)) = isWhiteSpace (hd s)"
  by (induction s rule: collapseWhitespace.induct) (auto simp: isWhiteSpace_def)

lemma run_Cons:
  "hasWhiteSpaceRun (c # s) = (s \<noteq> [] \<and> ((isWhiteSpace c \<and> isWhiteSpace (hd s)) \<or> hasWhiteSpaceRun s))"
  by (cases s) auto

lemma collapse_no_run: "\<not> hasWhiteSpaceRun (collapseWhitespace s)"
proof (induction s rule: collapseWhitespace.induct)
  case (3 c d cs)
  show ?case
  proof (cases "isWhiteSpace c \<and> isWhiteSpace d")
    case True
    let ?r = "dropWhile isWhiteSpace cs"
    have "?r \<noteq> [] \<Longrightarrow> \<not> isWhiteSpace (hd ?r)" by (rule hd_dropWhile)
    then have "?r \<noteq> [] \<Longrightarrow> \<not> isWhiteSpace (hd (collapseWhitespace ?r))"
      using collapse_head [of ?r] by simp
    moreover have "collapseWhitespace ?r \<noteq> [] \<Longrightarrow> ?r \<noteq> []"
      by (metis collapseWhitespace.simps(1))
    ultimately have "\<not> hasWhiteSpaceRun (CHR '' '' # collapseWhitespace ?r)"
      using True 3 unfolding run_Cons by blast
    then show ?thesis using True by simp
  next
    case False
    then show ?thesis using 3 collapse_head [of "d # cs"] by (auto simp add: run_Cons)
  qed
qed simp_all

lemma no_run_collapse: "\<not> hasWhiteSpaceRun s \<Longrightarrow> collapseWhitespace s = s"
  by (induction s rule: collapseWhitespace.induct) auto

lemma collapse_idem: "collapseWhitespace (collapseWhitespace s) = collapseWhitespace s"
  by (simp add: no_run_collapse collapse_no_run)

lemma normal_form:
  "getConfiguredText (getConfiguredText t cs mp cw) cs mp cw = getConfiguredText t cs mp cw"
proof -
  let ?l = "toLocaleLowerCase t"
  have l: "lowered ?l" by (rule lowered_lower)
  show ?thesis
    by (cases cs; cases mp; cases cw)
       (simp_all add: getConfiguredText_def collapse_idem stripped_id stripped_strip
          stripped_collapse lowered_id lowered_lower lowered_strip lowered_collapse)
qed

text \<open>
  C8. With \<open>shouldCollapseWhitespace\<close> set, normalizing a normalized text changes
  nothing, for every setting of the other two flags; the result has no run of two or
  more white-space characters; and a text without such a run, normalized with case
  and punctuation kept, is returned as it is.
\<close>

theorem getConfiguredText_idempotent:
  "getConfiguredText (getConfiguredText t cs mp True) cs mp True = getConfiguredText t cs mp True
   \<and> \<not> hasWhiteSpaceRun (getConfiguredText t cs mp True)
   \<and> (\<not> hasWhiteSpaceRun t \<longrightarrow> getConfiguredText t True True True = t)"
proof (intro conjI impI)
  show "getConfiguredText (getConfiguredText t cs mp True) cs mp True
          = getConfiguredText t cs mp True"
    by (rule normal_form)
  show "\<not> hasWhiteSpaceRun (getConfiguredText t cs mp True)"
    by (simp add: getConfiguredText_def collapse_no_run Let_def)
  show "getConfiguredText t True True True = t" if "\<not> hasWhiteSpaceRun t"
    using that by (simp add: getConfiguredText_def no_run_collapse Let_def)
qed

theorem getConfiguredText_idempotent_witness:
  "getConfiguredText (getConfiguredText ''A-b.C  d'' False False True) False False True = ''a bc d''
   \<and> \<not> hasWhiteSpaceRun ''a bc d'' \<and> getConfiguredText ''a bc d'' True True True = ''a bc d''"
proof -
  have n: "\<not> hasWhiteSpaceRun ''a bc d''" by code_simp
  have v: "getConfiguredText ''A-b.C  d'' False False True = ''a bc d''" by code_simp
  show ?thesis
    using getConfiguredText_idempotent [of "''A-b.C  d''" False False] 
          getConfiguredText_idempotent [of "''a bc d''" True True] n v
    by simp
qed

subsection \<open>Dampening factor\<close>

lemma isDampenedCharacter_iff:
  "isDampenedCharacter c = (isPunctuationOrSymbol c \<or> c = CHR '' '')"
  by (auto simp: isDampenedCharacter_def isPunctuationOrSymbol_def)

lemma getCustomWordMultiplier_amended:
  "getCustomWordMultiplier word =
     (if length word = 1 \<and> (list_ex isPunctuationOrSymbol word \<or> word = '' '') then 1 / 10
      else if word \<in> set stopWords then 1 / 2
      else 1)"
proof (cases "length word = 1")
  case True
  then obtain c where "word = [c]" by (cases word) auto
  then show ?thesis
    by (auto simp: getCustomWordMultiplier_def isDampenedCharacter_iff stopWords_def)
next
  case False
  then show ?thesis by (auto simp: getCustomWordMultiplier_def stopWords_def)
qed

lemma unique_one_token:
  "q \<in> set B \<Longrightarrow>
     getUniqueSingleWordMatchScore [q] B (Num m)
       = Num (real (length q) * m * getCustomWordMultiplier q)"
  by (simp add: getUniqueSingleWordMatchScore_def)

lemma single_one_token:
  "q \<in> set B \<Longrightarrow>
     getSingleWordMatchScore [q] B (Num m)
       = Num (real (length (filter (\<lambda>b. b = q) B)) * real (length q) * m
               * getCustomWordMultiplier q)"
  by (simp add: getSingleWordMatchScore_def)

text \<open>
  C9, as amended. The factor is 0.1 for a single character that is a punctuation or
  symbol character of ASCII or the space, 0.5 for the five stop-words (compared as
  they are written; the function takes no flag), and 1 otherwise. So a shared token
  \<open>the\<close> scores half of what a shared token of the same length that is not a stop-word
  scores, in both frequency scorers, when both occur equally often in their bodies.
\<close>

theorem getCustomWordMultiplier_cases:
  "getCustomWordMultiplier word =
     (if length word = 1 \<and> (list_ex isPunctuationOrSymbol word \<or> word = '' '') then 1 / 10
      else if word \<in> set stopWords then 1 / 2
      else 1)
   \<and> (length w = length ''the'' \<and> w \<notin> set stopWords
        \<and> ''the'' \<in> set B \<and> w \<in> set B'
        \<and> length (filter (\<lambda>b. b = ''the'') B) = length (filter (\<lambda>b. b = w) B')
      \<longrightarrow> getUniqueSingleWordMatchScore [''the''] B (Num m)
            = jsMul (Num (1 / 2)) (getUniqueSingleWordMatchScore [w] B' (Num m))
          \<and> getSingleWordMatchScore [''the''] B (Num m)
            = jsMul (Num (1 / 2)) (getSingleWordMatchScore [w] B' (Num m)))"
proof (intro conjI impI)
  show "getCustomWordMultiplier word =
     (if length word = 1 \<and> (list_ex isPunctuationOrSymbol word \<or> word = '' '') then 1 / 10
      else if word \<in> set stopWords then 1 / 2
      else 1)"
    by (rule getCustomWordMultiplier_amended)
next
  assume a: "length w = length ''the'' \<and> w \<notin> set stopWords
        \<and> ''the'' \<in> set B \<and> w \<in> set B'
        \<and> length (filter (\<lambda>b. b = ''the'') B) = length (filter (\<lambda>b. b = w) B')"
  have the: "getCustomWordMultiplier ''the'' = 1 / 2"
    by (simp add: getCustomWordMultiplier_def)
  have w: "getCustomWordMultiplier w = 1"
    using a by (simp add: getCustomWordMultiplier_amended)
  show "getUniqueSingleWordMatchScore [''the''] B (Num m)
            = jsMul (Num (1 / 2)) (getUniqueSingleWordMatchScore [w] B' (Num m))"
    using a by (simp add: unique_one_token the w)
  show "getSingleWordMatchScore [''the''] B (Num m)
            = jsMul (Num (1 / 2)) (getSingleWordMatchScore [w] B' (Num m))"
    using a by (simp add: single_one_token the w)
qed

theorem getCustomWordMultiplier_cases_witness:
  "getCustomWordMultiplier ''?'' = 1 / 10 \<and> getCustomWordMultiplier '' '' = 1 / 10
   \<and> getCustomWordMultiplier ''I'' = 1 / 2 \<and> getCustomWordMultiplier ''i'' = 1
   \<and> getUniqueSingleWordMatchScore [''the''] [''the'', ''fox'', ''the''] (Num (3 / 2))
        = jsMul (Num (1 / 2))
            (getUniqueSingleWordMatchScore [''fox''] [''fox'', ''a'', ''fox''] (Num (3 / 2)))
   \<and> getSingleWordMatchScore [''the''] [''the'', ''fox'', ''the''] (Num (3 / 2)) = Num (9 / 2)
   \<and> getSingleWordMatchScore [''fox''] [''fox'', ''a'', ''fox''] (Num (3 / 2)) = Num 9"
proof -
  have h: "length ''fox'' = length ''the'' \<and> ''fox'' \<notin> set stopWords
        \<and> ''the'' \<in> set [''the'', ''fox'', ''the''] \<and> ''fox'' \<in> set [''fox'', ''a'', ''fox'']
        \<and> length (filter (\<lambda>b. b = ''the'') [''the'', ''fox'', ''the''])
            = length (filter (\<lambda>b. b = ''fox'') [''fox'', ''a'', ''fox''])"
    by (simp add: stopWords_def)
  have v1: "getSingleWordMatchScore [''fox''] [''fox'', ''a'', ''fox''] (Num (3 / 2)) = Num 9"
    by code_simp
  have v2: "getCustomWordMultiplier ''i'' = 1" by code_simp
  have v3: "getCustomWordMultiplier ''I'' = 1 / 2" by code_simp
  show ?thesis
    using getCustomWordMultiplier_cases
            [of "''?''" "''fox''" "[''the'', ''fox'', ''the'']" "[''fox'', ''a'', ''fox'']" "3 / 2"]
          getCustomWordMultiplier_cases
            [of "'' ''" "''fox''" "[''the'', ''fox'', ''the'']" "[''fox'', ''a'', ''fox'']" "3 / 2"]
          h v1 v2 v3
    by (simp add: isPunctuationOrSymbol_def)
qed

text \<open>
  The claim as worded fails at the token made of one space: a space is neither a
  punctuation nor a symbol character and not a stop-word, yet its factor is 0.1.
\<close>

theorem getCustomWordMultiplier_space:
  "getCustomWordMultiplier '' '' = 1 / 10 \<and> dampeningAsStated '' '' = 1
   \<and> getCustomWordMultiplier '' '' \<noteq> dampeningAsStated '' ''"
  by (simp add: getCustomWordMultiplier_def dampeningAsStated_def isDampenedCharacter_def
        isPunctuationOrSymbol_def stopWords_def)

subsection \<open>Options\<close>

text \<open>
  C5, as amended. The effective configuration is the default record overwritten at
  every key the override holds, with the value it holds there, \<^verbatim>\<open>undefined\<close> included;
  a key absent from the override (or an absent override) keeps its default. The
  variables \<^verbatim>\<open>search\<close> works with are read from this record with no other change.
\<close>

theorem effectiveOptions_spread:
  "effectiveOptions opts k =
     (case opts of
        None \<Rightarrow> Some (defaultValue k)
      | Some override \<Rightarrow>
          (case override k of None \<Rightarrow> Some (defaultValue k) | Some v \<Rightarrow> Some v))
   \<and> destructure (effectiveOptions opts) k =
     (case opts of
        None \<Rightarrow> defaultValue k
      | Some override \<Rightarrow> (case override k of None \<Rightarrow> defaultValue k | Some v \<Rightarrow> v))"
  by (simp add: effectiveOptions_def defaultSearchOptions_def destructure_def map_add_def
        split: option.splits)

text \<open>
  The claim as worded fails for a key present with the value \<^verbatim>\<open>undefined\<close>: the spread
  copies it over the default. With \<^verbatim>\<open>{exactMatchPoints: undefined}\<close> the weight is
  \<^verbatim>\<open>undefined\<close>, not 70, and \<^verbatim>\<open>search({query: "x", body: "x"})\<close> returns \<^verbatim>\<open>NaN\<close> instead of
  the 124.5 of the defaults.
\<close>

theorem effectiveOptions_undefined_overrides:
  "[exactMatchPoints \<mapsto> Undefined] exactMatchPoints = Some Undefined
   \<and> defaultSearchOptions exactMatchPoints = Some (Number (Num 70))
   \<and> effectiveOptions (Some [exactMatchPoints \<mapsto> Undefined]) exactMatchPoints = Some Undefined
   \<and> search rejectingEngine
        \<lparr>query = ''x'', body = ''x'', options = Some [exactMatchPoints \<mapsto> Undefined]\<rparr>
      = Inr NaN
   \<and> search rejectingEngine \<lparr>query = ''x'', body = ''x'', options = None\<rparr>
      = Inr (Num (249 / 2))"
proof -
  have a: "search rejectingEngine
        \<lparr>query = ''x'', body = ''x'', options = Some [exactMatchPoints \<mapsto> Undefined]\<rparr>
      = Inr NaN"
    by code_simp
  have b: "search rejectingEngine \<lparr>query = ''x'', body = ''x'', options = None\<rparr>
      = Inr (Num (249 / 2))"
    by code_simp
  show ?thesis using a b
    by (simp add: effectiveOptions_def defaultSearchOptions_def)
qed

subsection \<open>Aggregation: which scorers a run calls\<close>






lemma consecutiveWordStep_thrown:
  "thrown r \<noteq> None \<Longrightarrow> thrown (consecutiveWordStep cfg qw bw r) \<noteq> None"
  by (simp add: consecutiveWordStep_def split: sum.splits)



lemma destructure_effective:
  "destructure (effectiveOptions opts) k =
     (case opts of
        None \<Rightarrow> defaultValue k
      | Some override \<Rightarrow> (case override k of None \<Rightarrow> defaultValue k | Some v \<Rightarrow> v))"
  by (simp add: effectiveOptions_def defaultSearchOptions_def destructure_def map_add_def
        split: option.splits)






subsection \<open>Aggregation: the sign of the score\<close>

lemma neverNegative_jsAdd: "neverNegative a \<Longrightarrow> neverNegative b \<Longrightarrow> neverNegative (jsAdd a b)"
  by (cases a; cases b) simp_all

lemma neverNegative_jsMul: "neverNegative a \<Longrightarrow> neverNegative b \<Longrightarrow> neverNegative (jsMul a b)"
  by (cases a; cases b) simp_all

lemma neverNegative_real: "neverNegative (Num (real n))"
  by simp

lemma neverNegative_dampening: "neverNegative (Num (getCustomWordMultiplier w))"
  by (simp add: getCustomWordMultiplier_def)

lemma neverNegative_foldl:
  "neverNegative acc \<Longrightarrow> (\<And>w. neverNegative (f w))
     \<Longrightarrow> neverNegative (foldl (\<lambda>s w. jsAdd s (f w)) acc ws)"
  by (induction ws arbitrary: acc) (simp_all add: neverNegative_jsAdd)

lemma neverNegative_single:
  "neverNegative m \<Longrightarrow> neverNegative (getSingleWordMatchScore qw bw m)"
  unfolding getSingleWordMatchScore_def Let_def
proof (rule neverNegative_foldl)
  show "neverNegative (Num 0)" by simp
next
  fix w
  assume "neverNegative m"
  then show "neverNegative (jsMul (jsMul (jsMul
               (Num (real (length (filter (\<lambda>bodyWord. bodyWord = w) bw))))
               (Num (real (length w)))) m) (Num (getCustomWordMultiplier w)))"
    by (intro neverNegative_jsMul neverNegative_real neverNegative_dampening)
qed

lemma neverNegative_unique:
  "neverNegative m \<Longrightarrow> neverNegative (getUniqueSingleWordMatchScore qw bw m)"
  unfolding getUniqueSingleWordMatchScore_def Let_def
proof (rule neverNegative_foldl)
  show "neverNegative (Num 0)" by simp
next
  fix w
  assume "neverNegative m"
  then show "neverNegative (jsMul (jsMul (Num (real (length w))) m)
               (Num (getCustomWordMultiplier w)))"
    by (intro neverNegative_jsMul neverNegative_real neverNegative_dampening)
qed

lemma neverNegative_consecutive:
  "neverNegative m1 \<Longrightarrow> neverNegative m2
     \<Longrightarrow> getConsecutiveWordSequenceMatchScore qw bw m1 m2 = Inr scores
     \<Longrightarrow> neverNegative (consecutiveWordScore scores)
         \<and> neverNegative (consecutiveWordSequenceScore scores)"
  by (auto simp: getConsecutiveWordSequenceMatchScore_def neverNegative_jsMul
        split: sum.splits)

lemma neverNegative_atLeastZero: "atLeastZero n \<Longrightarrow> neverNegative n"
  by (cases n) simp_all

lemma neverNegative_ToNumber: "nonNegativeNumber v \<Longrightarrow> neverNegative (ToNumber v)"
  by (cases v) (simp_all add: neverNegative_atLeastZero)

lemma neverNegative_andThen:
  "neverNegative (score r) \<Longrightarrow> (\<And>r'. neverNegative (score r') \<Longrightarrow> neverNegative (score (step r')))
     \<Longrightarrow> neverNegative (score (andThen r step))"
  by (simp add: andThen_def)

lemma neverNegative_exactMatchStep:
  "nonNegativeNumber (cfg exactMatchPoints) \<Longrightarrow> neverNegative (score r)
     \<Longrightarrow> neverNegative (score (exactMatchStep cfg fq fb r))"
  by (simp add: exactMatchStep_def neverNegative_jsAdd neverNegative_jsMul neverNegative_ToNumber)

lemma neverNegative_exactContainingMatchStep:
  "nonNegativeNumber (cfg exactContainingMatchPoints) \<Longrightarrow> neverNegative (score r)
     \<Longrightarrow> neverNegative (score (exactContainingMatchStep engine cfg fq fb r))"
  by (simp add: exactContainingMatchStep_def neverNegative_jsAdd neverNegative_jsMul
        neverNegative_ToNumber split: sum.splits)

lemma neverNegative_singleWordMatchStep:
  "nonNegativeNumber (cfg singleWordMatchPoints)
     \<Longrightarrow> nonNegativeNumber (cfg singleWordMatchLengthMultiplier) \<Longrightarrow> neverNegative (score r)
     \<Longrightarrow> neverNegative (score (singleWordMatchStep cfg qw bw r))"
  by (simp add: singleWordMatchStep_def neverNegative_jsAdd neverNegative_jsMul
        neverNegative_ToNumber neverNegative_single)

lemma neverNegative_uniqueSingleWordMatchStep:
  "nonNegativeNumber (cfg uniqueSingleWordMatchPoints)
     \<Longrightarrow> nonNegativeNumber (cfg uniqueSingleWordMatchLengthMultiplier) \<Longrightarrow> neverNegative (score r)
     \<Longrightarrow> neverNegative (score (uniqueSingleWordMatchStep cfg qw bw r))"
  by (simp add: uniqueSingleWordMatchStep_def neverNegative_jsAdd neverNegative_jsMul
        neverNegative_ToNumber neverNegative_unique)

lemma neverNegative_consecutiveWordStep:
  assumes "nonNegativeNumber (cfg consecutiveWordMatchPoints)"
    and "nonNegativeNumber (cfg consecutiveWordMatchLengthMultiplier)"
    and "nonNegativeNumber (cfg consecutiveWordSequenceMatchPoints)"
    and "nonNegativeNumber (cfg consecutiveWordSequenceLengthMultiplier)"
    and "neverNegative (score r)"
  shows "neverNegative (score (consecutiveWordStep cfg qw bw r))"
proof (cases "getConsecutiveWordSequenceMatchScore qw bw
                (ToNumber (cfg consecutiveWordMatchLengthMultiplier))
                (ToNumber (cfg consecutiveWordSequenceLengthMultiplier))")
  case (Inl e)
  then show ?thesis using assms by (simp add: consecutiveWordStep_def)
next
  case (Inr scores)
  then have "neverNegative (consecutiveWordScore scores)
         \<and> neverNegative (consecutiveWordSequenceScore scores)"
    using assms neverNegative_consecutive neverNegative_ToNumber by blast
  then show ?thesis using assms Inr
    by (simp add: consecutiveWordStep_def neverNegative_jsAdd neverNegative_jsMul
          neverNegative_ToNumber)
qed

lemma neverNegative_effective:
  "nonNegativeOptions opts \<Longrightarrow> k \<in> set numericKeys
     \<Longrightarrow> nonNegativeNumber (destructure (effectiveOptions opts) k)"
proof (cases opts)
  case None
  assume "k \<in> set numericKeys"
  then show ?thesis using None
    by (auto simp: destructure_effective numericKeys_def)
next
  case (Some ov)
  assume k: "k \<in> set numericKeys" and n: "nonNegativeOptions opts"
  from n Some
  have "\<forall>k \<in> set numericKeys. case ov k of None \<Rightarrow> True | Some v \<Rightarrow> nonNegativeNumber v"
    by (simp add: nonNegativeOptions_def list_all_iff)
  with k have c: "case ov k of None \<Rightarrow> True | Some v \<Rightarrow> nonNegativeNumber v" by blast
  show ?thesis
  proof (cases "ov k")
    case None
    then show ?thesis using Some k
      by (auto simp: destructure_effective numericKeys_def)
  next
    case (Some v)
    then show ?thesis using c \<open>opts = Some ov\<close>
      by (simp add: destructure_effective)
  qed
qed

lemma neverNegative_searchRun:
  assumes "nonNegativeOptions (options inputs)"
  shows "neverNegative (score (searchRun engine inputs))"
proof -
  let ?cfg = "destructure (effectiveOptions (options inputs))"
  have cfg: "\<And>k. k \<in> set numericKeys \<Longrightarrow> nonNegativeNumber (?cfg k)"
    using assms by (rule neverNegative_effective)
  have k: "exactMatchPoints \<in> set numericKeys" "exactContainingMatchPoints \<in> set numericKeys"
    "singleWordMatchPoints \<in> set numericKeys" "singleWordMatchLengthMultiplier \<in> set numericKeys"
    "uniqueSingleWordMatchPoints \<in> set numericKeys"
    "uniqueSingleWordMatchLengthMultiplier \<in> set numericKeys"
    "consecutiveWordMatchPoints \<in> set numericKeys"
    "consecutiveWordMatchLengthMultiplier \<in> set numericKeys"
    "consecutiveWordSequenceMatchPoints \<in> set numericKeys"
    "consecutiveWordSequenceLengthMultiplier \<in> set numericKeys"
    by (simp_all add: numericKeys_def)
  show ?thesis
    unfolding searchRun_def Let_def
    by (intro neverNegative_andThen neverNegative_consecutiveWordStep
          neverNegative_uniqueSingleWordMatchStep neverNegative_singleWordMatchStep
          neverNegative_exactContainingMatchStep neverNegative_exactMatchStep cfg k)
       simp_all
qed

text \<open>
  C7, as amended. When every numeric field of the options record is absent or a
  nonnegative number (positive infinity included), a value that \<^verbatim>\<open>search\<close> returns is never
  negative: it is at least 0 (possibly positive infinity) or it is \<^verbatim>\<open>NaN\<close>. The statement
  is about signs only, so it holds of the doubles of the source as it does of the exact
  numbers of the model: rounding keeps the sign, a product or sum of nonnegative
  numbers that overflows is positive infinity, and infinity times 0 is \<^verbatim>\<open>NaN\<close>.
\<close>

theorem search_nonnegative:
  "nonNegativeOptions (options inputs) \<and> search engine inputs = Inr v
     \<longrightarrow> v = NaN \<or> atLeastZero v"
proof
  assume a: "nonNegativeOptions (options inputs) \<and> search engine inputs = Inr v"
  then have "neverNegative (score (searchRun engine inputs))"
    by (simp add: neverNegative_searchRun)
  moreover have "v = score (searchRun engine inputs)"
    using a by (auto simp: search_def Let_def split: option.splits)
  ultimately have "neverNegative v" by simp
  then show "v = NaN \<or> atLeastZero v" by (cases v) simp_all
qed

theorem search_nonnegative_witness:
  "nonNegativeOptions (Some [exactMatchPoints \<mapsto> Number (Num 3),
                              singleWordMatchLengthMultiplier \<mapsto> Number (Num (1 / 2)),
                              isCaseSensitive \<mapsto> Undefined])
   \<and> search rejectingEngine
        \<lparr>query = ''quick fox'', body = ''the quick fox'',
         options = Some [exactMatchPoints \<mapsto> Number (Num 3),
                         singleWordMatchLengthMultiplier \<mapsto> Number (Num (1 / 2)),
                         isCaseSensitive \<mapsto> Undefined]\<rparr> = Inr (Num (392 / 5))
   \<and> atLeastZero (Num (392 / 5))
   \<and> nonNegativeOptions (Some [singleWordMatchLengthMultiplier \<mapsto> Number PosInfinity])
   \<and> search rejectingEngine
        \<lparr>query = ''quick fox'', body = ''the quick fox'',
         options = Some [singleWordMatchLengthMultiplier \<mapsto> Number PosInfinity]\<rparr>
      = Inr PosInfinity
   \<and> atLeastZero PosInfinity"
proof -
  let ?ov = "[exactMatchPoints \<mapsto> Number (Num 3),
              singleWordMatchLengthMultiplier \<mapsto> Number (Num (1 / 2)),
              isCaseSensitive \<mapsto> Undefined]"
  let ?in = "\<lparr>query = ''quick fox'', body = ''the quick fox'', options = Some ?ov\<rparr>"
  let ?inf = "\<lparr>query = ''quick fox'', body = ''the quick fox'',
               options = Some [singleWordMatchLengthMultiplier \<mapsto> Number PosInfinity]\<rparr>"
  have h: "nonNegativeOptions (options ?in)" by code_simp
  have v: "search rejectingEngine ?in = Inr (Num (392 / 5))" by code_simp
  have h': "nonNegativeOptions (options ?inf)" by code_simp
  have v': "search rejectingEngine ?inf = Inr PosInfinity" by code_simp
  show ?thesis
    using search_nonnegative [of ?in rejectingEngine "Num (392 / 5)"]
          search_nonnegative [of ?inf rejectingEngine PosInfinity] h v h' v'
    by simp
qed

text \<open>
  The claim as worded fails for an infinite weight, which is nonnegative: with
  \<^verbatim>\<open>{exactMatchPoints: Infinity}\<close> and texts that differ, line 255 adds infinity times 0,
  which is \<^verbatim>\<open>NaN\<close>, and \<^verbatim>\<open>NaN >= 0\<close> is false.
\<close>

theorem search_infinite_weight:
  "atLeastZero PosInfinity
   \<and> nonNegativeOptions (Some [exactMatchPoints \<mapsto> Number PosInfinity])
   \<and> search rejectingEngine
        \<lparr>query = ''a'', body = ''b'',
         options = Some [exactMatchPoints \<mapsto> Number PosInfinity]\<rparr> = Inr NaN
   \<and> \<not> atLeastZero NaN"
  by code_simp

subsection \<open>Empty inputs\<close>

lemma literalMatches_empty_pattern: "literalMatches [] b = length b + 1"
  by (induction b) simp_all

lemma getConfiguredText_empty: "getConfiguredText [] cs mp cw = []"
  by (simp add: getConfiguredText_def toLocaleLowerCase_def removePunctuation_def
        replaceSeparators_def)

lemma innerLoop_no_range: "innerLoop qw bw i 0 s = Inr (Exhausted, s)"
  by (simp add: innerLoop.simps)

lemma outerLoop_empty_body:
  "\<exists>s'. outerLoop qw [] i s = Inr s'
        \<and> mostConsecutiveWords s' = mostConsecutiveWords s
        \<and> longestConsecutiveWordSequence s' = longestConsecutiveWordSequence s"
proof (induction "length qw - i" arbitrary: i s)
  case 0
  then show ?case by (simp add: outerLoop.simps)
next
  case (Suc n)
  then have lt: "i < length qw" and n: "n = length qw - (i + 1)" by simp_all
  let ?s = "startScan s"
  have step: "outerLoop qw [] i s = outerLoop qw [] (i + 1) ?s"
    using lt by (subst outerLoop.simps) (simp add: matchIndexes_def innerLoop_no_range)
  from Suc.hyps(1) [OF n, of ?s] show ?case by (simp add: step startScan_def)
qed

lemma consecutive_empty_query:
  "getConsecutiveWordSequenceMatchScore [] bw (Num m1) (Num m2)
     = Inr \<lparr>consecutiveWordScore = Num 0, consecutiveWordSequenceScore = Num 0\<rparr>"
  by (simp add: getConsecutiveWordSequenceMatchScore_def outerLoop.simps)

lemma consecutive_empty_body:
  "getConsecutiveWordSequenceMatchScore qw [] (Num m1) (Num m2)
     = Inr \<lparr>consecutiveWordScore = Num 0, consecutiveWordSequenceScore = Num 0\<rparr>"
proof -
  obtain s' where "outerLoop qw [] 0
          \<lparr>mostConsecutiveWords = 0, longestConsecutiveWordSequence = 0,
           firstBodyWord = 0, currentConsecutiveWords = 0,
           currentConsecutiveWordSequence = 0\<rparr> = Inr s'"
    and "mostConsecutiveWords s' = 0" and "longestConsecutiveWordSequence s' = 0"
    using outerLoop_empty_body [of qw 0 "\<lparr>mostConsecutiveWords = 0,
           longestConsecutiveWordSequence = 0, firstBodyWord = 0,
           currentConsecutiveWords = 0, currentConsecutiveWordSequence = 0\<rparr>"]
    by auto
  then show ?thesis by (simp add: getConsecutiveWordSequenceMatchScore_def)
qed

text \<open>
  C4, as amended. The empty query is a valid input, but the exact-containing strategy
  does not contribute 0 for it: as a pattern the empty string matches at every index
  of the body, so with the default options the statement of lines 259-263 adds 50
  times (length of the normalized body + 1) to the score, for every body. Empty token
  sequences do contribute 0: each token-based scorer returns 0 when the query tokens
  or the body tokens are empty.
\<close>

theorem empty_inputs:
  "getConfiguredText [] cs mp cw = []
   \<and> getExactContainingMatchScore engine [] formattedBody = Inr (length formattedBody + 1)
   \<and> exactContainingMatchStep engine (destructure (effectiveOptions None)) [] formattedBody r
       = r\<lparr>score := jsAdd (score r) (Num (50 * (real (length formattedBody) + 1))),
           invoked := invoked r @ [ExactContainingMatch]\<rparr>
   \<and> getSingleWordMatchScore [] bw m = Num 0
   \<and> getSingleWordMatchScore qw [] m = Num 0
   \<and> getUniqueSingleWordMatchScore [] bw m = Num 0
   \<and> getUniqueSingleWordMatchScore qw [] m = Num 0
   \<and> getConsecutiveWordSequenceMatchScore [] bw (Num m1) (Num m2)
       = Inr \<lparr>consecutiveWordScore = Num 0, consecutiveWordSequenceScore = Num 0\<rparr>
   \<and> getConsecutiveWordSequenceMatchScore qw [] (Num m1) (Num m2)
       = Inr \<lparr>consecutiveWordScore = Num 0, consecutiveWordSequenceScore = Num 0\<rparr>"
proof (intro conjI)
  show "getConfiguredText [] cs mp cw = []" by (rule getConfiguredText_empty)
  show c: "getExactContainingMatchScore engine [] formattedBody
             = Inr (length formattedBody + 1)"
    by (simp add: getExactContainingMatchScore_def literalMatches_empty_pattern)
  show "exactContainingMatchStep engine (destructure (effectiveOptions None)) [] formattedBody r
       = r\<lparr>score := jsAdd (score r) (Num (50 * (real (length formattedBody) + 1))),
           invoked := invoked r @ [ExactContainingMatch]\<rparr>"
    by (simp add: exactContainingMatchStep_def c destructure_effective strictNotZero_def
          algebra_simps)
  show "getSingleWordMatchScore [] bw m = Num 0" by (simp add: getSingleWordMatchScore_def)
  show "getSingleWordMatchScore qw [] m = Num 0" by (simp add: getSingleWordMatchScore_def)
  show "getUniqueSingleWordMatchScore [] bw m = Num 0"
    by (simp add: getUniqueSingleWordMatchScore_def)
  show "getUniqueSingleWordMatchScore qw [] m = Num 0"
    by (simp add: getUniqueSingleWordMatchScore_def)
  show "getConsecutiveWordSequenceMatchScore [] bw (Num m1) (Num m2)
       = Inr \<lparr>consecutiveWordScore = Num 0, consecutiveWordSequenceScore = Num 0\<rparr>"
    by (rule consecutive_empty_query)
  show "getConsecutiveWordSequenceMatchScore qw [] (Num m1) (Num m2)
       = Inr \<lparr>consecutiveWordScore = Num 0, consecutiveWordSequenceScore = Num 0\<rparr>"
    by (rule consecutive_empty_body)
qed

text \<open>
  The claim as worded fails at the empty query and the body \<^verbatim>\<open>"a"\<close>: the pattern matches
  twice, and the whole score of 100 is the exact-containing term, which is gone when
  that strategy is switched off.
\<close>

theorem empty_query_exact_containing:
  "getExactContainingMatchScore rejectingEngine [] ''a'' = Inr 2
   \<and> search rejectingEngine \<lparr>query = [], body = ''a'', options = None\<rparr> = Inr (Num 100)
   \<and> search rejectingEngine
        \<lparr>query = [], body = ''a'',
         options = Some [exactContainingMatchPoints \<mapsto> Number (Num 0)]\<rparr> = Inr (Num 0)"
  by code_simp

subsection \<open>Consecutive-sequence scorer: the inner scan\<close>

lemma matchIndexes_count_zip:
  "length is = length bw \<Longrightarrow>
   length (filter (\<lambda>x. x \<noteq> None)
     (map (\<lambda>(bodyWord, index). if Some bodyWord = q then Some index else None) (zip bw is)))
   = length (filter (\<lambda>w. Some w = q) bw)"
  by (induction bw "is" rule: list_induct2') auto

lemma matchIndexes_count:
  "length (matchIndexes bw q) = length (filter (\<lambda>w. Some w = q) bw)"
  unfolding matchIndexes_def by (rule matchIndexes_count_zip) simp

lemma innerLoop_invariant:
  "innerLoop qw bw i n s = Inr (how, s') \<Longrightarrow> firstBodyWord s \<le> n
     \<Longrightarrow> currentConsecutiveWords s = firstBodyWord s
     \<Longrightarrow> firstBodyWord s \<le> firstBodyWord s'
       \<and> firstBodyWord s' \<le> n
       \<and> currentConsecutiveWords s' = firstBodyWord s'
       \<and> (\<forall>k. firstBodyWord s \<le> k \<and> k < firstBodyWord s'
              \<longrightarrow> elementAt qw (i + k) = elementAt bw (k + k) \<and> k + k < length bw)
       \<and> currentConsecutiveWordSequence s'
           = currentConsecutiveWordSequence s
             + (\<Sum>k = firstBodyWord s..<firstBodyWord s'. length (bw ! (k + k)))
       \<and> (how = Exhausted \<longrightarrow> firstBodyWord s' = n
              \<and> mostConsecutiveWords s' = mostConsecutiveWords s
              \<and> longestConsecutiveWordSequence s' = longestConsecutiveWordSequence s)
       \<and> (how = Broke \<longrightarrow> firstBodyWord s' < n
              \<and> elementAt qw (i + firstBodyWord s') \<noteq> elementAt bw (firstBodyWord s' + firstBodyWord s')
              \<and> mostConsecutiveWords s' = max (mostConsecutiveWords s) (firstBodyWord s')
              \<and> longestConsecutiveWordSequence s'
                  = max (longestConsecutiveWordSequence s) (currentConsecutiveWordSequence s'))"
proof (induction qw bw i n s rule: innerLoop.induct)
  case (1 qw bw i n s)
  show ?case
  proof (cases "firstBodyWord s < n")
    case False
    with "1.prems" show ?thesis by (auto simp: innerLoop.simps)
  next
    case lt: True
    show ?thesis
    proof (cases "elementAt qw (i + currentConsecutiveWords s)
                    \<noteq> elementAt bw (firstBodyWord s + currentConsecutiveWords s)")
      case True
      with lt "1.prems" show ?thesis by (auto simp: innerLoop.simps)
    next
      case eq: False
      show ?thesis
      proof (cases "elementAt bw (firstBodyWord s + currentConsecutiveWords s)")
        case None
        with lt eq "1.prems" show ?thesis by (simp add: innerLoop.simps)
      next
        case (Some w)
        let ?s1 = "s\<lparr>currentConsecutiveWordSequence :=
                        currentConsecutiveWordSequence s + length w,
                      currentConsecutiveWords := currentConsecutiveWords s + 1,
                      firstBodyWord := firstBodyWord s + 1\<rparr>"
        have run: "innerLoop qw bw i n ?s1 = Inr (how, s')"
          using lt eq Some "1.prems"(1) by (simp add: innerLoop.simps [of qw bw i n s])
        have w: "firstBodyWord s + firstBodyWord s < length bw"
                "w = bw ! (firstBodyWord s + firstBodyWord s)"
          using Some "1.prems"(3) by (auto simp: elementAt_def split: if_splits)
        have here: "elementAt qw (i + firstBodyWord s)
                      = elementAt bw (firstBodyWord s + firstBodyWord s)"
          using eq "1.prems"(3) by simp
        have IH: "firstBodyWord ?s1 \<le> firstBodyWord s'
           \<and> firstBodyWord s' \<le> n
           \<and> currentConsecutiveWords s' = firstBodyWord s'
           \<and> (\<forall>k. firstBodyWord ?s1 \<le> k \<and> k < firstBodyWord s'
              \<longrightarrow> elementAt qw (i + k) = elementAt bw (k + k) \<and> k + k < length bw)
           \<and> currentConsecutiveWordSequence s'
               = currentConsecutiveWordSequence ?s1
                 + (\<Sum>k = firstBodyWord ?s1..<firstBodyWord s'. length (bw ! (k + k)))
           \<and> (how = Exhausted \<longrightarrow> firstBodyWord s' = n
              \<and> mostConsecutiveWords s' = mostConsecutiveWords ?s1
              \<and> longestConsecutiveWordSequence s' = longestConsecutiveWordSequence ?s1)
           \<and> (how = Broke \<longrightarrow> firstBodyWord s' < n
              \<and> elementAt qw (i + firstBodyWord s') \<noteq> elementAt bw (firstBodyWord s' + firstBodyWord s')
              \<and> mostConsecutiveWords s' = max (mostConsecutiveWords ?s1) (firstBodyWord s')
              \<and> longestConsecutiveWordSequence s'
                  = max (longestConsecutiveWordSequence ?s1) (currentConsecutiveWordSequence s'))"
          using "1.IH" [OF lt _ Some run] eq lt "1.prems"(3) by simp
        have le: "firstBodyWord s < firstBodyWord s'" using IH by simp
        have sum: "(\<Sum>k = firstBodyWord s..<firstBodyWord s'. length (bw ! (k + k)))
                    = length w + (\<Sum>k = Suc (firstBodyWord s)..<firstBodyWord s'. length (bw ! (k + k)))"
          using le w(2) by (simp add: sum.atLeast_Suc_lessThan)
        have all: "\<forall>k. firstBodyWord s \<le> k \<and> k < firstBodyWord s'
              \<longrightarrow> elementAt qw (i + k) = elementAt bw (k + k) \<and> k + k < length bw"
        proof (intro allI impI)
          fix k assume k: "firstBodyWord s \<le> k \<and> k < firstBodyWord s'"
          show "elementAt qw (i + k) = elementAt bw (k + k) \<and> k + k < length bw"
          proof (cases "k = firstBodyWord s")
            case True
            then show ?thesis using here w(1) by simp
          next
            case False
            then have "firstBodyWord ?s1 \<le> k \<and> k < firstBodyWord s'" using k by simp
            then show ?thesis using IH by blast
          qed
        qed
        show ?thesis using IH le sum all by simp
      qed
    qed
  qed
qed


lemma outerLoop_step:
  "i < length qw \<Longrightarrow>
   outerLoop qw bw i s =
     (case innerLoop qw bw i (length (filter (\<lambda>w. w = qw ! i) bw)) (startScan s) of
        Inl e \<Rightarrow> Inl e
      | Inr (how, s') \<Rightarrow> outerLoop qw bw (i + 1) s')"
  by (subst outerLoop.simps) (simp add: matchIndexes_count elementAt_def)

text \<open>
  C2, as amended. For the start position \<open>i\<close> the range of the inner scan is the number
  of body tokens equal to the start token, and the scan runs for at most that many
  iterations: exactly that many when it ends without a mismatch, and then the two
  maxima are as before; up to that many when a mismatch breaks it, and then, and only
  then, the maxima are updated with the run length and the summed token lengths. The
  body is read at the loop counter plus the run length, which are equal, so at twice
  the counter, whatever the positions of the equal tokens are.
\<close>

theorem inner_scan:
  "length (matchIndexes bw (elementAt qw i))
     = length (filter (\<lambda>w. Some w = elementAt qw i) bw)
   \<and> (i < length qw \<longrightarrow>
        outerLoop qw bw i s =
          (case innerLoop qw bw i (length (filter (\<lambda>w. w = qw ! i) bw)) (startScan s) of
             Inl e \<Rightarrow> Inl e
           | Inr (how, s') \<Rightarrow> outerLoop qw bw (i + 1) s'))
   \<and> (innerLoop qw bw i n (startScan s) = Inr (how, s') \<longrightarrow>
        iterationsRun (how, s') \<le> n
      \<and> currentConsecutiveWords s' = firstBodyWord s'
      \<and> (\<forall>k < firstBodyWord s'.
            elementAt qw (i + k) = elementAt bw (k + k) \<and> k + k < length bw)
      \<and> currentConsecutiveWordSequence s' = (\<Sum>k < firstBodyWord s'. length (bw ! (k + k)))
      \<and> (how = Exhausted \<longrightarrow>
            iterationsRun (how, s') = n
          \<and> mostConsecutiveWords s' = mostConsecutiveWords s
          \<and> longestConsecutiveWordSequence s' = longestConsecutiveWordSequence s)
      \<and> (how = Broke \<longrightarrow>
            elementAt qw (i + firstBodyWord s')
              \<noteq> elementAt bw (firstBodyWord s' + firstBodyWord s')
          \<and> mostConsecutiveWords s' = max (mostConsecutiveWords s) (firstBodyWord s')
          \<and> longestConsecutiveWordSequence s'
              = max (longestConsecutiveWordSequence s) (currentConsecutiveWordSequence s')))"
proof (intro conjI impI)
  show "length (matchIndexes bw (elementAt qw i))
          = length (filter (\<lambda>w. Some w = elementAt qw i) bw)"
    by (rule matchIndexes_count)
  show "outerLoop qw bw i s =
          (case innerLoop qw bw i (length (filter (\<lambda>w. w = qw ! i) bw)) (startScan s) of
             Inl e \<Rightarrow> Inl e
           | Inr (how, s') \<Rightarrow> outerLoop qw bw (i + 1) s')" if "i < length qw"
    using that by (rule outerLoop_step)
next
  assume run: "innerLoop qw bw i n (startScan s) = Inr (how, s')"
  note inv = innerLoop_invariant [OF run, unfolded startScan_def, simplified]
  show "iterationsRun (how, s') \<le> n" using inv by (cases how) simp_all
  show "currentConsecutiveWords s' = firstBodyWord s'" using inv by simp
  show "\<forall>k < firstBodyWord s'.
          elementAt qw (i + k) = elementAt bw (k + k) \<and> k + k < length bw"
    using inv by simp
  show "currentConsecutiveWordSequence s' = (\<Sum>k < firstBodyWord s'. length (bw ! (k + k)))"
    using inv by (simp add: atLeast0LessThan)
  show "iterationsRun (how, s') = n" if "how = Exhausted" using inv that by simp
  show "mostConsecutiveWords s' = mostConsecutiveWords s" if "how = Exhausted"
    using inv that by simp
  show "longestConsecutiveWordSequence s' = longestConsecutiveWordSequence s"
    if "how = Exhausted"
    using inv that by simp
  show "elementAt qw (i + firstBodyWord s')
          \<noteq> elementAt bw (firstBodyWord s' + firstBodyWord s')" if "how = Broke"
    using inv that by simp
  show "mostConsecutiveWords s' = max (mostConsecutiveWords s) (firstBodyWord s')"
    if "how = Broke"
    using inv that by simp
  show "longestConsecutiveWordSequence s'
          = max (longestConsecutiveWordSequence s) (currentConsecutiveWordSequence s')"
    if "how = Broke"
    using inv that by simp
qed

theorem inner_scan_witness:
  "innerLoop [''a'', ''b''] [''a'', ''a'', ''c''] 0 2
       (startScan \<lparr>mostConsecutiveWords = 0, longestConsecutiveWordSequence = 0,
                   firstBodyWord = 0, currentConsecutiveWords = 0,
                   currentConsecutiveWordSequence = 0\<rparr>)
     = Inr (Broke, \<lparr>mostConsecutiveWords = 1, longestConsecutiveWordSequence = 1,
                    firstBodyWord = 1, currentConsecutiveWords = 1,
                    currentConsecutiveWordSequence = 1\<rparr>)
   \<and> iterationsRun (Broke, \<lparr>mostConsecutiveWords = 1, longestConsecutiveWordSequence = 1,
                    firstBodyWord = 1, currentConsecutiveWords = 1,
                    currentConsecutiveWordSequence = 1\<rparr>) \<le> 2
   \<and> innerLoop [''a''] [''a''] 0 1
       (startScan \<lparr>mostConsecutiveWords = 0, longestConsecutiveWordSequence = 0,
                   firstBodyWord = 0, currentConsecutiveWords = 0,
                   currentConsecutiveWordSequence = 0\<rparr>)
     = Inr (Exhausted, \<lparr>mostConsecutiveWords = 0, longestConsecutiveWordSequence = 0,
                        firstBodyWord = 1, currentConsecutiveWords = 1,
                        currentConsecutiveWordSequence = 1\<rparr>)
   \<and> iterationsRun (Exhausted, \<lparr>mostConsecutiveWords = 0, longestConsecutiveWordSequence = 0,
                        firstBodyWord = 1, currentConsecutiveWords = 1,
                        currentConsecutiveWordSequence = 1\<rparr>) = 1"
proof -
  let ?z = "\<lparr>mostConsecutiveWords = 0, longestConsecutiveWordSequence = 0,
             firstBodyWord = 0, currentConsecutiveWords = 0,
             currentConsecutiveWordSequence = 0\<rparr>"
  let ?b = "\<lparr>mostConsecutiveWords = 1, longestConsecutiveWordSequence = 1,
             firstBodyWord = 1, currentConsecutiveWords = 1,
             currentConsecutiveWordSequence = 1\<rparr>"
  let ?e = "\<lparr>mostConsecutiveWords = 0, longestConsecutiveWordSequence = 0,
             firstBodyWord = 1, currentConsecutiveWords = 1,
             currentConsecutiveWordSequence = 1\<rparr>"
  have b: "innerLoop [''a'', ''b''] [''a'', ''a'', ''c''] 0 2 (startScan ?z) = Inr (Broke, ?b)"
    by code_simp
  have e: "innerLoop [''a''] [''a''] 0 1 (startScan ?z) = Inr (Exhausted, ?e)"
    by code_simp
  show ?thesis
    using inner_scan [of "[''a'', ''a'', ''c'']" "[''a'', ''b'']" 0 ?z 2 Broke ?b]
          inner_scan [of "[''a'']" "[''a'']" 0 ?z 1 Exhausted ?e] b e
    by simp
qed

text \<open>
  The claim as worded fails where a mismatch comes before the range is used up: for
  the query token \<open>a\<close> and the body tokens \<open>c a a\<close> two body tokens equal the start
  token, and the scan runs one iteration.
\<close>

theorem inner_scan_stops_early:
  "length (filter (\<lambda>w. w = ''a'') [''c'', ''a'', ''a'']) = 2
   \<and> length (matchIndexes [''c'', ''a'', ''a''] (elementAt [''a''] 0)) = 2
   \<and> map_sum id iterationsRun
        (innerLoop [''a''] [''c'', ''a'', ''a''] 0 2
           (startScan \<lparr>mostConsecutiveWords = 0, longestConsecutiveWordSequence = 0,
                       firstBodyWord = 0, currentConsecutiveWords = 0,
                       currentConsecutiveWordSequence = 0\<rparr>))
      = Inr 1"
  by code_simp

subsection \<open>Failures of the consecutive-sequence scorer\<close>

text \<open>
  C1. \<^verbatim>\<open>search\<close> does not return for every query without syntax characters: in
  word-only mode, \<^verbatim>\<open>search({query: "x", body: "x x", options:
  {shouldMatchWhitespaceAndPunctuation: false}})\<close> throws a \<^verbatim>\<open>TypeError\<close>. The tokens are
  \<open>x\<close> and \<open>x x\<close>; the scan range is 2; in its second iteration both reads are out of
  range, so the comparison of line 167 sees two \<^verbatim>\<open>undefined\<close> values and does not break,
  and line 182 reads \<^verbatim>\<open>.length\<close> of \<^verbatim>\<open>undefined\<close>.
\<close>

theorem search_throws_in_word_only_mode:
  "\<not> list_ex isSyntaxCharacter ''x''
   \<and> getWords ''x'' False True = [''x'']
   \<and> getWords ''x x'' False True = [''x'', ''x'']
   \<and> getConsecutiveWordSequenceMatchScore [''x''] [''x'', ''x''] (Num 2) (Num (3 / 2))
       = Inl TypeError
   \<and> search rejectingEngine
        \<lparr>query = ''x'', body = ''x x'',
         options = Some [shouldMatchWhitespaceAndPunctuation \<mapsto> Boolean False]\<rparr>
      = Inl TypeError"
  by code_simp

subsection \<open>Unique frequency scorer: repeated query tokens\<close>

text \<open>
  C3. The unique variant counts a query token once for every time it occurs in the
  query: \<^verbatim>\<open>sharedWords\<close> is the filtered query token list, which keeps repetitions. For
  \<^verbatim>\<open>search({query: "cat cat", body: "cat"})\<close> the token \<open>cat\<close> is added twice (9 instead of
  4.5 before the point weight).
\<close>

theorem unique_counts_repeated_query_tokens:
  "getWords ''cat cat'' True True = [''cat'', '' '', ''cat'']
   \<and> getWords ''cat'' True True = [''cat'']
   \<and> getUniqueSingleWordMatchScore [''cat'', '' '', ''cat''] [''cat''] (Num (3 / 2)) = Num 9
   \<and> getUniqueSingleWordMatchScore [''cat''] [''cat''] (Num (3 / 2)) = Num (9 / 2)
   \<and> search rejectingEngine \<lparr>query = ''cat cat'', body = ''cat'', options = None\<rparr>
      = Inr (Num 27)"
  by code_simp

end
